theory Spec2Isabelle
  imports Main
begin

section \<open>The packaging manifest \<^verbatim>\<open>setup.py\<close> of py\_c\_extension\<close>

text \<open>
  The repository is one script, \<^verbatim>\<open>setup.py\<close>:
  \<^verbatim>\<open>
  from distutils.core import Extension, setup

  module1 = Extension(
      "DemoPackage",
      define_macros=[("USE_PRINTER", "1")],
      include_dirs=["include"],
      sources=["src/demo.c"],
  )

  setup(
      name="DemoPackage",
      version="1.0",
      description="This is a demo package",
      author="<first> <last>",
      author_email="person@site.com",
      url="https://docs.python.org/extending/buildling",
      long_description=open("README.rst").read(),
      ext_modules=[module1],
  )
  \<close>
  The script builds one \<^verbatim>\<open>Extension\<close> object, evaluates the keyword arguments of
  the call of \<^verbatim>\<open>setup\<close> from left to right (one of them reads a file) and then
  calls \<^verbatim>\<open>setup\<close>. \<^verbatim>\<open>Extension\<close> and \<^verbatim>\<open>setup\<close> belong to distutils, which is
  not part of the repository: the model keeps what the script hands to them and takes
  the behaviour of \<^verbatim>\<open>setup\<close> as a parameter.
\<close>

subsection \<open>The file system the script reads\<close>

text \<open>
  Paths are the strings the script writes, relative to the working directory. A path
  holds a regular file (with the text that \<^verbatim>\<open>read()\<close> returns for it), a directory,
  or nothing. Every file of the model is readable and decodable; the import of
  distutils in line 1 is taken to succeed.
\<close>

datatype node = File string | Dir

type_synonym filesystem = "(string \<times> node) list"

datatype py_error =
    FileNotFoundError
  | IsADirectoryError
  | SetupError string  \<comment> \<open>any exception raised inside the external \<^verbatim>\<open>setup\<close>\<close>

definition is_file :: "filesystem \<Rightarrow> string \<Rightarrow> bool" where
  "is_file fs p = (case map_of fs p of Some (File c) \<Rightarrow> True | _ \<Rightarrow> False)"

definition is_dir :: "filesystem \<Rightarrow> string \<Rightarrow> bool" where
  "is_dir fs p = (case map_of fs p of Some Dir \<Rightarrow> True | _ \<Rightarrow> False)"

text \<open>\<^verbatim>\<open>open(p).read()\<close>: the whole text of the file, or the exception of \<^verbatim>\<open>open\<close>.\<close>

definition open_read :: "filesystem \<Rightarrow> string \<Rightarrow> py_error + string" where
  "open_read fs p =
     (case map_of fs p of
        None \<Rightarrow> Inl FileNotFoundError
      | Some Dir \<Rightarrow> Inl IsADirectoryError
      | Some (File c) \<Rightarrow> Inr c)"

subsection \<open>The extension descriptor and the arguments of \<^verbatim>\<open>setup\<close>\<close>

text \<open>
  \<^verbatim>\<open>Extension\<close> stores its arguments as attributes. Its first argument is
  positional (the attribute \<^verbatim>\<open>name\<close> of distutils); the field is called \<open>ext_name\<close>
  here because \<open>name\<close> is the keyword of \<^verbatim>\<open>setup\<close>. A macro definition is a pair of
  strings, and the three lists keep their order.
\<close>

record Extension =
  ext_name :: string
  define_macros :: "(string \<times> string) list"
  include_dirs :: "string list"
  sources :: "string list"

record setup_kwargs =
  name :: string
  version :: string
  description :: string
  author :: string
  author_email :: string
  url :: string
  long_description :: string
  ext_modules :: "Extension list"

definition module1 :: Extension where
  "module1 =
     \<lparr> ext_name = ''DemoPackage'',
       define_macros = [(''USE_PRINTER'', ''1'')],
       include_dirs = [''include''],
       sources = [''src/demo.c''] \<rparr>"

text \<open>
  The keyword arguments in the order the script writes them. The first six are
  literals; the seventh opens and reads \<^verbatim>\<open>README.rst\<close>, and an exception there ends
  the evaluation; the eighth is the list holding \<open>module1\<close>.
\<close>

definition setup_arguments :: "filesystem \<Rightarrow> py_error + setup_kwargs" where
  "setup_arguments fs =
     (case open_read fs ''README.rst'' of
        Inl e \<Rightarrow> Inl e
      | Inr readme \<Rightarrow>
          Inr \<lparr> name = ''DemoPackage'',
                version = ''1.0'',
                description = ''This is a demo package'',
                author = ''<first> <last>'',
                author_email = ''person@site.com'',
                url = ''https://docs.python.org/extending/buildling'',
                long_description = readme,
                ext_modules = [module1] \<rparr>)"

subsection \<open>Running the script\<close>

text \<open>
  The script in a world \<open>w\<close> (whatever the external tool acts on: build directory,
  installed packages). \<open>setup\<close> is the external function: given the keyword arguments
  and the world it returns or raises, and leaves a new world. The script has no
  \<^verbatim>\<open>try\<close>: an exception while the arguments are evaluated ends it with the world as
  it was, and \<open>setup\<close> is applied only to fully evaluated arguments.
\<close>

definition setup_py ::
  "(setup_kwargs \<Rightarrow> 'w \<Rightarrow> (py_error + unit) \<times> 'w) \<Rightarrow> filesystem \<Rightarrow> 'w \<Rightarrow> (py_error + unit) \<times> 'w"
where
  "setup_py setup fs w =
     (case setup_arguments fs of
        Inl e \<Rightarrow> (Inl e, w)
      | Inr kwargs \<Rightarrow> setup kwargs w)"

text \<open>
  A stand-in for the external \<^verbatim>\<open>setup\<close> that only registers the metadata it is
  called with, in a world that is the list of registered packages.
\<close>

definition register :: "setup_kwargs \<Rightarrow> setup_kwargs list \<Rightarrow> (py_error + unit) \<times> setup_kwargs list" where
  "register kwargs w = (Inr (), w @ [kwargs])"

section \<open>Properties\<close>

subsection \<open>Helper facts\<close>

lemma setup_arguments_readme:
  "open_read fs ''README.rst'' = Inr s \<Longrightarrow>
     setup_arguments fs =
       Inr \<lparr> name = ''DemoPackage'', version = ''1.0'',
             description = ''This is a demo package'', author = ''<first> <last>'',
             author_email = ''person@site.com'',
             url = ''https://docs.python.org/extending/buildling'',
             long_description = s, ext_modules = [module1] \<rparr>"
  by (simp add: setup_arguments_def)

lemma setup_arguments_raises:
  "open_read fs ''README.rst'' = Inl e \<Longrightarrow> setup_arguments fs = Inl e"
  by (simp add: setup_arguments_def)

lemma open_read_Inr_iff: "open_read fs p = Inr c \<longleftrightarrow> map_of fs p = Some (File c)"
  by (simp add: open_read_def split: option.splits node.splits)

lemma open_read_absent: "map_of fs p = None \<Longrightarrow> open_read fs p = Inl FileNotFoundError"
  by (simp add: open_read_def)

lemma setup_arguments_cong:
  "open_read fs ''README.rst'' = open_read fs' ''README.rst'' \<Longrightarrow>
     setup_arguments fs = setup_arguments fs'"
  by (simp add: setup_arguments_def)

lemma setup_py_cong:
  "setup_arguments fs = setup_arguments fs' \<Longrightarrow> setup_py setup fs w = setup_py setup fs' w"
  by (simp add: setup_py_def)

subsection \<open>The extension and the package carry one name\<close>



subsection \<open>One extension is declared\<close>

text \<open>
  C2. The list passed to \<^verbatim>\<open>setup\<close> as \<^verbatim>\<open>ext_modules\<close> has length one, and its only
  element is \<open>module1\<close>, the one descriptor the script builds.
\<close>

theorem ext_modules_is_module1:
  assumes "setup_arguments fs = Inr kwargs"
  shows "length (ext_modules kwargs) = 1 \<and> ext_modules kwargs = [module1]"
proof (cases "open_read fs ''README.rst''")
  case (Inl e)
  with assms show ?thesis by (simp add: setup_arguments_raises)
next
  case (Inr s)
  from setup_arguments_readme [OF Inr] assms show ?thesis by auto
qed

theorem ext_modules_is_module1_witness:
  "map_sum id ext_modules (setup_arguments [(''README.rst'', File ''Demo'')]) = Inr [module1]
   \<and> map_sum id (length \<circ> ext_modules) (setup_arguments [(''README.rst'', File ''Demo'')])
       = Inr (Suc 0)"
proof -
  obtain k where k: "setup_arguments [(''README.rst'', File ''Demo'')] = Inr k"
    by (simp add: setup_arguments_def open_read_def)
  from ext_modules_is_module1 [OF k] show ?thesis
    by (simp add: k)
qed

subsection \<open>The long description is the text of the readme\<close>

text \<open>
  C3, as the claim states it, asks for a non-empty long description. The script does
  not look at what it read: with an empty \<^verbatim>\<open>README.rst\<close> the call of \<^verbatim>\<open>setup\<close> is
  reached and the long description is the empty string.
\<close>

theorem long_description_empty_readme:
  "open_read [(''README.rst'', File [])] ''README.rst'' = Inr []
   \<and> map_sum id long_description (setup_arguments [(''README.rst'', File [])]) = Inr []"
  by (simp add: setup_arguments_def open_read_def)

text \<open>
  C3 (amended). When \<^verbatim>\<open>README.rst\<close> is a file with text \<open>c\<close>, the script reaches the
  call of \<^verbatim>\<open>setup\<close> and the long description it passes is \<open>c\<close>, whole and unchanged;
  so it is a non-empty string exactly when the file is not empty.
\<close>

theorem long_description_is_readme:
  assumes "map_of fs ''README.rst'' = Some (File c)"
  shows "\<exists>kwargs. setup_arguments fs = Inr kwargs
           \<and> long_description kwargs = c
           \<and> (long_description kwargs \<noteq> []) = (c \<noteq> [])"
proof -
  from assms have "open_read fs ''README.rst'' = Inr c"
    by (simp add: open_read_Inr_iff)
  from setup_arguments_readme [OF this] show ?thesis by simp
qed

theorem long_description_is_readme_witness:
  "map_of [(''include'', Dir), (''README.rst'', File ''Demo package'')] ''README.rst''
     = Some (File ''Demo package'')
   \<and> map_sum id long_description
        (setup_arguments [(''include'', Dir), (''README.rst'', File ''Demo package'')])
       = Inr ''Demo package''"
proof -
  have h: "map_of [(''include'', Dir), (''README.rst'', File ''Demo package'')] ''README.rst''
             = Some (File ''Demo package'')"
    by simp
  from long_description_is_readme [OF h] show ?thesis
    by auto
qed

subsection \<open>A missing readme\<close>

text \<open>
  C4. When \<^verbatim>\<open>README.rst\<close> does not exist, opening it raises \<^verbatim>\<open>FileNotFoundError\<close>;
  nothing catches it, so the script ends with that exception. Whatever \<^verbatim>\<open>setup\<close>
  would do, it is not called: the world is left exactly as it was, with nothing
  registered.
\<close>

theorem missing_readme_raises_before_setup:
  assumes "map_of fs ''README.rst'' = None"
  shows "open_read fs ''README.rst'' = Inl FileNotFoundError
       \<and> setup_arguments fs = Inl FileNotFoundError
       \<and> setup_py setup fs w = (Inl FileNotFoundError, w)"
proof -
  have r: "open_read fs ''README.rst'' = Inl FileNotFoundError"
    using assms by (rule open_read_absent)
  have a: "setup_arguments fs = Inl FileNotFoundError"
    using r by (rule setup_arguments_raises)
  have "setup_py setup fs w = (Inl FileNotFoundError, w)"
    by (simp add: setup_py_def a)
  with r a show ?thesis by simp
qed

theorem missing_readme_raises_before_setup_witness:
  "map_of [(''src/demo.c'', File ''int x;''), (''include'', Dir)] ''README.rst'' = None
   \<and> setup_py register [(''src/demo.c'', File ''int x;''), (''include'', Dir)] []
       = (Inl FileNotFoundError, [])"
proof -
  have h: "map_of [(''src/demo.c'', File ''int x;''), (''include'', Dir)] ''README.rst'' = None"
    by simp
  from missing_readme_raises_before_setup [OF h, of register "[]"] h show ?thesis
    by simp
qed

subsection \<open>Source files and include directories\<close>

text \<open>
  C5, as the claim states it, says that every listed source path is an existing file
  at build time. The script only writes the path down: in a directory that holds the
  readme and no \<^verbatim>\<open>src/demo.c\<close> it reaches the call of \<^verbatim>\<open>setup\<close> all the same, and the
  list it passes names a file that is not there.
\<close>

theorem sources_not_checked:
  "map_sum id (map sources \<circ> ext_modules) (setup_arguments [(''README.rst'', File ''Demo'')])
     = Inr [[''src/demo.c'']]
   \<and> \<not> list_all (is_file [(''README.rst'', File ''Demo'')]) (sources module1)"
  by (simp add: setup_arguments_def open_read_def module1_def is_file_def)

text \<open>
  C5 (amended). The source list of the declared extension is not empty, and every path
  in it is an existing file at build time provided \<^verbatim>\<open>src/demo.c\<close> is one; the
  script itself checks nothing.
\<close>

theorem sources_nonempty_and_present:
  assumes "is_file fs ''src/demo.c''"
  shows "sources module1 \<noteq> [] \<and> (\<forall>p \<in> set (sources module1). is_file fs p)"
  using assms by (simp add: module1_def)

theorem sources_nonempty_and_present_witness:
  "is_file [(''README.rst'', File ''Demo''), (''src/demo.c'', File ''int x;'')] ''src/demo.c''
   \<and> sources module1 \<noteq> []
   \<and> list_all (is_file [(''README.rst'', File ''Demo''), (''src/demo.c'', File ''int x;'')])
        (sources module1)"
proof -
  have h: "is_file [(''README.rst'', File ''Demo''), (''src/demo.c'', File ''int x;'')] ''src/demo.c''"
    by (simp add: is_file_def)
  from sources_nonempty_and_present [OF h] h show ?thesis
    by (simp add: list_all_iff)
qed

text \<open>
  C6, as the claim states it, says that every include directory exists at build time.
  Again the script checks nothing: with the readme and the source file in place and
  no directory \<^verbatim>\<open>include\<close>, it reaches the call of \<^verbatim>\<open>setup\<close> with the same list.
\<close>

theorem include_dirs_not_checked:
  "map_sum id (map include_dirs \<circ> ext_modules)
     (setup_arguments [(''README.rst'', File ''Demo''), (''src/demo.c'', File ''int x;'')])
     = Inr [[''include'']]
   \<and> \<not> list_all (is_dir [(''README.rst'', File ''Demo''), (''src/demo.c'', File ''int x;'')])
          (include_dirs module1)"
  by (simp add: setup_arguments_def open_read_def module1_def is_dir_def)

text \<open>
  C6 (amended). Every entry of the include directory list is an existing directory at
  build time provided \<^verbatim>\<open>include\<close> is one; the script itself checks nothing.
\<close>

theorem include_dirs_present:
  assumes "is_dir fs ''include''"
  shows "\<forall>d \<in> set (include_dirs module1). is_dir fs d"
  using assms by (simp add: module1_def)

theorem include_dirs_present_witness:
  "is_dir [(''include'', Dir), (''README.rst'', File ''Demo'')] ''include''
   \<and> list_all (is_dir [(''include'', Dir), (''README.rst'', File ''Demo'')]) (include_dirs module1)"
proof -
  have h: "is_dir [(''include'', Dir), (''README.rst'', File ''Demo'')] ''include''"
    by (simp add: is_dir_def)
  from include_dirs_present [OF h] h show ?thesis
    by (simp add: list_all_iff)
qed

text \<open>
  C7. The source list of the descriptor is exactly the one path \<^verbatim>\<open>src/demo.c\<close> and
  its include directory list is exactly the one entry \<^verbatim>\<open>include\<close>.
\<close>

theorem sources_and_include_dirs_exact:
  "sources module1 = [''src/demo.c''] \<and> include_dirs module1 = [''include'']
   \<and> length (sources module1) = 1 \<and> length (include_dirs module1) = 1"
  by (simp add: module1_def)

subsection \<open>Preprocessor macros\<close>

text \<open>
  C9. The descriptor defines exactly one macro: the list of definitions is the single
  pair of \<^verbatim>\<open>USE_PRINTER\<close> and \<^verbatim>\<open>1\<close>; read as a mapping, it gives \<^verbatim>\<open>USE_PRINTER\<close> the
  value \<^verbatim>\<open>1\<close> and defines no other name.
\<close>

theorem define_macros_single:
  "define_macros module1 = [(''USE_PRINTER'', ''1'')]
   \<and> map_of (define_macros module1) ''USE_PRINTER'' = Some ''1''
   \<and> dom (map_of (define_macros module1)) = {''USE_PRINTER''}"
  by (simp add: module1_def dom_def)

subsection \<open>The readme is the only input\<close>

text \<open>
  C10. Take two evaluations of the script, in any two file systems, in which reading
  \<^verbatim>\<open>README.rst\<close> gives the same string. Both reach the call of \<^verbatim>\<open>setup\<close>, and with the
  same keyword arguments: name, version, description, author, author email, url,
  long description and the extension list (with the name, macros, include
  directories and sources of its element) agree field by field. Run with the same
  \<^verbatim>\<open>setup\<close> from the same world, the two evaluations end alike.
\<close>

theorem setup_arguments_deterministic:
  assumes "open_read fs1 ''README.rst'' = Inr s"
      and "open_read fs2 ''README.rst'' = Inr s"
  shows "\<exists>k1 k2. setup_arguments fs1 = Inr k1 \<and> setup_arguments fs2 = Inr k2
           \<and> name k1 = name k2 \<and> version k1 = version k2
           \<and> description k1 = description k2 \<and> author k1 = author k2
           \<and> author_email k1 = author_email k2 \<and> url k1 = url k2
           \<and> long_description k1 = long_description k2
           \<and> ext_modules k1 = ext_modules k2
           \<and> map ext_name (ext_modules k1) = map ext_name (ext_modules k2)
           \<and> map define_macros (ext_modules k1) = map define_macros (ext_modules k2)
           \<and> map include_dirs (ext_modules k1) = map include_dirs (ext_modules k2)
           \<and> map sources (ext_modules k1) = map sources (ext_modules k2)
           \<and> k1 = k2
           \<and> setup_py setup fs1 w = setup_py setup fs2 w"
proof -
  have same: "setup_arguments fs1 = setup_arguments fs2"
    using assms by (intro setup_arguments_cong) simp
  obtain k where k: "setup_arguments fs1 = Inr k"
    using setup_arguments_readme [OF assms(1)] by blast
  have run: "setup_py setup fs1 w = setup_py setup fs2 w"
    using same by (rule setup_py_cong)
  from k same have "setup_arguments fs2 = Inr k" by simp
  with k run show ?thesis by blast
qed

theorem setup_arguments_deterministic_witness:
  "open_read [(''README.rst'', File ''Demo'')] ''README.rst'' = Inr ''Demo''
   \<and> open_read [(''src/demo.c'', File ''int x;''), (''README.rst'', File ''Demo''), (''include'', Dir)]
        ''README.rst'' = Inr ''Demo''
   \<and> setup_arguments [(''README.rst'', File ''Demo'')]
       = setup_arguments
           [(''src/demo.c'', File ''int x;''), (''README.rst'', File ''Demo''), (''include'', Dir)]
   \<and> setup_py register [(''README.rst'', File ''Demo'')] []
       = setup_py register
           [(''src/demo.c'', File ''int x;''), (''README.rst'', File ''Demo''), (''include'', Dir)] []"
proof -
  have h1: "open_read [(''README.rst'', File ''Demo'')] ''README.rst'' = Inr ''Demo''"
    by (simp add: open_read_def)
  have h2: "open_read [(''src/demo.c'', File ''int x;''), (''README.rst'', File ''Demo''), (''include'', Dir)]
              ''README.rst'' = Inr ''Demo''"
    by (simp add: open_read_def)
  from setup_arguments_deterministic [OF h1 h2, of register "[]"] h1 h2 show ?thesis
    by auto
qed

end
